theory Spec2Isabelle
  imports Main "HOL-Library.AList"
begin

section \<open>Python values\<close>

text \<open>
  A Python \<open>str\<close> is a sequence of Unicode code points: \<open>len\<close>, slicing and
  truthiness all count code points, so a string is a list of code point numbers.
  \<open>ascii\<close> writes a literal of the source whose characters are all ASCII; the emoji of
  the diagnostic strings are given by their code points below.
\<close>

type_synonym codepoint = nat
type_synonym pystr = "codepoint list"

definition ascii :: "string \<Rightarrow> pystr" where
  "ascii s = map of_char s"

text \<open>Truthiness of a string: \<open>not s\<close> holds exactly for the empty string.\<close>

definition truthy :: "pystr \<Rightarrow> bool" where
  "truthy s = (s \<noteq> [])"

text \<open>
  The values the handlers put into their \<open>dict\<close> results: \<open>None\<close>, strings and
  lists. A \<open>dict\<close> keeps its keys in insertion order and an assignment to an existing key
  keeps the key's place, which is what \<open>AList.update\<close> does on an association list.
\<close>

datatype json = JNull | JStr pystr | JList "json list"

type_synonym pydict = "(pystr \<times> json) list"

section \<open>The URL type\<close>

text \<open>
  Modelled from the spec: the type \<open>HttpUrl\<close> of the optional URL fields is imported
  from the pydantic library, which is not part of the sources. The specification asks for
  "a syntactically valid URL"; this is taken as the generic syntax of RFC 3986 with the
  scheme \<open>http\<close> or \<open>https\<close>, a host of labels separated by dots, an optional port and
  a rest (path, query, fragment) made of the characters a URL may contain, the whole at
  most 2083 code points long. A value of the type is held as the text it was built from.
\<close>

type_synonym HttpUrl = pystr

definition is_alpha :: "codepoint \<Rightarrow> bool" where
  "is_alpha c = ((65 \<le> c \<and> c \<le> 90) \<or> (97 \<le> c \<and> c \<le> 122))"

definition is_digit :: "codepoint \<Rightarrow> bool" where
  "is_digit c = (48 \<le> c \<and> c \<le> 57)"

fun split_on :: "codepoint \<Rightarrow> pystr \<Rightarrow> pystr list" where
  "split_on sep [] = [[]]"
| "split_on sep (c # cs) =
     (if c = sep then [] # split_on sep cs
      else (case split_on sep cs of
              [] \<Rightarrow> [[c]]
            | part # parts \<Rightarrow> (c # part) # parts))"

definition label_ok :: "pystr \<Rightarrow> bool" where
  "label_ok l =
     (l \<noteq> [] \<and> list_all (\<lambda>c. is_alpha c \<or> is_digit c \<or> c = 45) l \<and> hd l \<noteq> 45 \<and> last l \<noteq> 45)"

definition host_ok :: "pystr \<Rightarrow> bool" where
  "host_ok h = list_all label_ok (split_on 46 h)"

definition url_char :: "codepoint \<Rightarrow> bool" where
  "url_char c = (is_alpha c \<or> is_digit c \<or> c \<in> set (ascii ''-._~:/?#[]@!$&()*+,;=%''))"

definition rest_ok :: "pystr \<Rightarrow> bool" where
  "rest_ok r = ((r = [] \<or> hd r \<in> set (ascii ''/?#'')) \<and> list_all url_char r)"

definition port_rest_ok :: "pystr \<Rightarrow> bool" where
  "port_rest_ok t =
     (case t of
        [] \<Rightarrow> True
      | c # t' \<Rightarrow>
          if c = 58 then takeWhile is_digit t' \<noteq> [] \<and> rest_ok (dropWhile is_digit t')
          else rest_ok t)"

definition authority_ok :: "pystr \<Rightarrow> bool" where
  "authority_ok r =
     (host_ok (takeWhile (\<lambda>c. c \<notin> set (ascii ''/?#:'')) r) \<and>
      port_rest_ok (dropWhile (\<lambda>c. c \<notin> set (ascii ''/?#:'')) r))"

fun strip_prefix :: "pystr \<Rightarrow> pystr \<Rightarrow> pystr option" where
  "strip_prefix [] s = Some s"
| "strip_prefix (p # ps) [] = None"
| "strip_prefix (p # ps) (c # cs) = (if p = c then strip_prefix ps cs else None)"

definition http_url :: "pystr \<Rightarrow> bool" where
  "http_url u =
     (length u \<le> 2083 \<and>
      (case strip_prefix (ascii ''https://'') u of
         Some r \<Rightarrow> authority_ok r
       | None \<Rightarrow>
           (case strip_prefix (ascii ''http://'') u of
              Some r \<Rightarrow> authority_ok r
            | None \<Rightarrow> False)))"

section \<open>Errors\<close>

text \<open>
  An exception raised by the database collaborator, as far as the handler looks at it:
  the most specific of the classes its \<open>except\<close> clauses tell apart, and the text
  \<open>str(e)\<close>. \<open>ImportErrorClass\<close> stands for \<open>ImportError\<close> and its subclasses,
  \<open>ExceptionClass\<close> for the other subclasses of \<open>Exception\<close>, and
  \<open>BaseExceptionClass\<close> for what derives from \<open>BaseException\<close> outside
  \<open>Exception\<close> (\<open>KeyboardInterrupt\<close>, \<open>SystemExit\<close>, \<open>GeneratorExit\<close>).
\<close>

datatype exc_class = ImportErrorClass | ExceptionClass | BaseExceptionClass

record exc =
  exc_class :: exc_class
  exc_str :: pystr

definition isinstance_ImportError :: "exc \<Rightarrow> bool" where
  "isinstance_ImportError e = (exc_class e = ImportErrorClass)"

definition isinstance_Exception :: "exc \<Rightarrow> bool" where
  "isinstance_Exception e = (exc_class e = ImportErrorClass \<or> exc_class e = ExceptionClass)"

text \<open>
  What leaves a handler instead of a value. \<open>HTTPException\<close> carries its status code and
  detail. \<open>RequestValidationError\<close> is what the framework raises, before the handler
  runs, for a body that does not fit the handler's parameter type, with the names of the
  fields at fault. \<open>ValidationError\<close> is raised when a model is built from a value one of
  its field types refuses. \<open>Uncaught\<close> is an exception of the collaborator that no
  \<open>except\<close> clause caught.
\<close>

datatype error =
    HTTPException nat pystr
  | RequestValidationError "pystr list"
  | ValidationError "pystr list"
  | Uncaught exc

text \<open>
  The status line of the response. The source installs no exception handler of its
  own, so the framework's handlers apply: an \<open>HTTPException\<close> is answered with its own
  status code, a \<open>RequestValidationError\<close> with 422, any other exception with 500, and
  a returned value with 200.
\<close>

fun error_status :: "error \<Rightarrow> nat" where
  "error_status (HTTPException code detail) = code"
| "error_status (RequestValidationError locs) = 422"
| "error_status (ValidationError locs) = 500"
| "error_status (Uncaught e) = 500"

definition status_of :: "error + 'a \<Rightarrow> nat" where
  "status_of r = (case r of Inl e \<Rightarrow> error_status e | Inr v \<Rightarrow> 200)"

section \<open>The resource models\<close>

text \<open>
  \<^verbatim>\<open>
  class Profile(BaseModel):
      name: str
      title: str
      location: str
      bio: str
      avatar: Optional[HttpUrl] = None
      socials: dict

  class Skill(BaseModel):
      name: str
      level: Optional[str] = None
      category: Optional[str] = None

  class Experience(BaseModel):
      company: str
      role: str
      start: str
      end: str
      location: Optional[str] = None
      achievements: List[str] = []

  class Project(BaseModel):
      name: str
      description: str
      tech: List[str]
      repo: Optional[HttpUrl] = None
      live: Optional[HttpUrl] = None
      image: Optional[HttpUrl] = None
  \<close>
  The fields \<open>end\<close> and \<open>image\<close> are written \<open>end'\<close> and \<open>image'\<close>. Field names that
  several models share are written with the model's name in front where needed
  (\<open>Profile.name\<close>, \<open>Project.name\<close>).
\<close>

record Profile =
  name :: pystr
  title :: pystr
  location :: pystr
  bio :: pystr
  avatar :: "HttpUrl option"
  socials :: pydict

record Skill =
  name :: pystr
  level :: "pystr option"
  category :: "pystr option"

record Experience =
  company :: pystr
  role :: pystr
  start :: pystr
  end' :: pystr
  location :: "pystr option"
  achievements :: "pystr list"

record Project =
  name :: pystr
  description :: pystr
  tech :: "pystr list"
  repo :: "HttpUrl option"
  live :: "HttpUrl option"
  image' :: "HttpUrl option"

text \<open>
  Building a model validates its fields. The string fields are given string literals
  throughout; the URL fields are given strings, which \<open>HttpUrl\<close> accepts or refuses. A
  refusal raises a \<open>ValidationError\<close> that names every refused field.
\<close>

definition refused_urls :: "(pystr \<times> pystr option) list \<Rightarrow> pystr list" where
  "refused_urls fs =
     map fst (filter (\<lambda>(f, v). case v of None \<Rightarrow> False | Some u \<Rightarrow> \<not> http_url u) fs)"

definition new_Profile ::
  "pystr \<Rightarrow> pystr \<Rightarrow> pystr \<Rightarrow> pystr \<Rightarrow> pystr option \<Rightarrow> pydict \<Rightarrow> error + Profile" where
  "new_Profile n t l b a s =
     (case refused_urls [(ascii ''avatar'', a)] of
        [] \<Rightarrow> Inr \<lparr>Profile.name = n, title = t, Profile.location = l, bio = b, avatar = a,
                  socials = s\<rparr>
      | f # fs \<Rightarrow> Inl (ValidationError (f # fs)))"

definition new_Project ::
  "pystr \<Rightarrow> pystr \<Rightarrow> pystr list \<Rightarrow> pystr option \<Rightarrow> pystr option \<Rightarrow> pystr option
     \<Rightarrow> error + Project" where
  "new_Project n d t r l i =
     (case refused_urls [(ascii ''repo'', r), (ascii ''live'', l), (ascii ''image'', i)] of
        [] \<Rightarrow> Inr \<lparr>Project.name = n, description = d, tech = t, repo = r, live = l,
                  image' = i\<rparr>
      | f # fs \<Rightarrow> Inl (ValidationError (f # fs)))"

text \<open>
  A list display evaluates its elements from left to right; the first element that
  raises ends the evaluation.
\<close>

fun list_display :: "(error + 'a) list \<Rightarrow> error + 'a list" where
  "list_display [] = Inr []"
| "list_display (x # xs) =
     (case x of
        Inl e \<Rightarrow> Inl e
      | Inr v \<Rightarrow> (case list_display xs of Inl e \<Rightarrow> Inl e | Inr vs \<Rightarrow> Inr (v # vs)))"

section \<open>The read-only resources\<close>

text \<open>
  \<^verbatim>\<open>
  @app.get("/")
  def read_root():
      return {"message": "Portfolio Backend Running"}
  \<close>
\<close>

definition read_root :: pydict where
  "read_root = [(ascii ''message'', JStr (ascii ''Portfolio Backend Running''))]"

definition get_profile :: "error + Profile" where
  "get_profile =
     new_Profile
       (ascii ''Your Name'')
       (ascii ''Software Engineer'')
       (ascii ''Remote / Worldwide'')
       (ascii ''I craft scalable web apps and delightful developer experiences. '' @
        ascii ''I specialize in React, TypeScript, Node.js, and cloud-native backends.'')
       (Some (ascii ''https://avatars.githubusercontent.com/u/9919?s=200&v=4''))
       [(ascii ''github'', JStr (ascii ''https://github.com/'')),
        (ascii ''linkedin'', JStr (ascii ''https://linkedin.com/in/'')),
        (ascii ''twitter'', JStr (ascii ''https://twitter.com/'')),
        (ascii ''email'', JStr (ascii ''mailto:you@example.com''))]"

definition get_skills :: "Skill list" where
  "get_skills =
     [\<lparr>Skill.name = ascii ''JavaScript'', level = Some (ascii ''Expert''),
       category = Some (ascii ''Frontend'')\<rparr>,
      \<lparr>Skill.name = ascii ''TypeScript'', level = Some (ascii ''Advanced''),
       category = Some (ascii ''Frontend'')\<rparr>,
      \<lparr>Skill.name = ascii ''React'', level = Some (ascii ''Advanced''),
       category = Some (ascii ''Frontend'')\<rparr>,
      \<lparr>Skill.name = ascii ''Node.js'', level = Some (ascii ''Advanced''),
       category = Some (ascii ''Backend'')\<rparr>,
      \<lparr>Skill.name = ascii ''Python'', level = Some (ascii ''Advanced''),
       category = Some (ascii ''Backend'')\<rparr>,
      \<lparr>Skill.name = ascii ''FastAPI'', level = Some (ascii ''Advanced''),
       category = Some (ascii ''Backend'')\<rparr>,
      \<lparr>Skill.name = ascii ''MongoDB'', level = Some (ascii ''Advanced''),
       category = Some (ascii ''Database'')\<rparr>,
      \<lparr>Skill.name = ascii ''PostgreSQL'', level = Some (ascii ''Intermediate''),
       category = Some (ascii ''Database'')\<rparr>,
      \<lparr>Skill.name = ascii ''Docker'', level = Some (ascii ''Intermediate''),
       category = Some (ascii ''DevOps'')\<rparr>,
      \<lparr>Skill.name = ascii ''AWS'', level = Some (ascii ''Intermediate''),
       category = Some (ascii ''Cloud'')\<rparr>]"

definition get_experience :: "Experience list" where
  "get_experience =
     [\<lparr>company = ascii ''Tech Co.'',
       role = ascii ''Senior Software Engineer'',
       start = ascii ''2022'',
       end' = ascii ''Present'',
       location = Some (ascii ''Remote''),
       achievements =
         [ascii ''Led migration to micro frontends across 5 products'',
          ascii ''Improved build times by 40% with module federation'',
          ascii ''Mentored 6 engineers and introduced better code review practices'']\<rparr>,
      \<lparr>company = ascii ''Startup XYZ'',
       role = ascii ''Full-Stack Engineer'',
       start = ascii ''2020'',
       end' = ascii ''2022'',
       location = Some (ascii ''San Francisco, CA''),
       achievements =
         [ascii ''Shipped real-time collaboration features used by 50k+ users'',
          ascii ''Designed FastAPI backend with WebSocket event system'']\<rparr>]"

definition get_projects :: "error + Project list" where
  "get_projects =
     list_display
       [new_Project
          (ascii ''DevDash'')
          (ascii ''Developer productivity dashboard with integrations.'')
          [ascii ''React'', ascii ''Vite'', ascii ''Tailwind'', ascii ''FastAPI'']
          (Some (ascii ''https://github.com/''))
          (Some (ascii ''https://example.com''))
          (Some (ascii ''https://images.unsplash.com/photo-1555066931-4365d14bab8c?q=80&w=1200&auto=format&fit=crop'')),
        new_Project
          (ascii ''TaskFlow'')
          (ascii ''Team task management with real-time updates.'')
          [ascii ''TypeScript'', ascii ''React'', ascii ''MongoDB'', ascii ''Socket.io'']
          (Some (ascii ''https://github.com/''))
          (Some (ascii ''https://example.com''))
          (Some (ascii ''https://images.unsplash.com/photo-1515879218367-8466d910aaa4?q=80&w=1200&auto=format&fit=crop'')),
        new_Project
          (ascii ''API Kit'')
          (ascii ''Toolkit for building typed APIs quickly.'')
          [ascii ''Python'', ascii ''FastAPI'', ascii ''Pydantic'']
          (Some (ascii ''https://github.com/''))
          (Some (ascii ''https://example.com''))
          (Some (ascii ''https://images.unsplash.com/photo-1518770660439-4636190af475?q=80&w=1200&auto=format&fit=crop''))]"

section \<open>The contact endpoint\<close>

text \<open>
  \<^verbatim>\<open>
  class ContactMessage(BaseModel):
      name: str
      email: str
      message: str
  \<close>
\<close>

record ContactMessage =
  name :: pystr
  email :: pystr
  message :: pystr

text \<open>
  \<^verbatim>\<open>
  def submit_contact(msg: ContactMessage):
      if not msg.name or not msg.email or not msg.message:
          raise HTTPException(status_code=400, detail="All fields are required")
      return {"status": "received", "name": msg.name}
  \<close>
\<close>

definition submit_contact :: "ContactMessage \<Rightarrow> error + pydict" where
  "submit_contact msg =
     (if \<not> truthy (name msg) \<or> \<not> truthy (email msg) \<or> \<not> truthy (message msg)
      then Inl (HTTPException 400 (ascii ''All fields are required''))
      else Inr [(ascii ''status'', JStr (ascii ''received'')),
                (ascii ''name'', JStr (name msg))])"

text \<open>
  The request body of \<open>POST /api/contact\<close> is a JSON object; each of the three fields
  is either absent or present. Only string values are modelled for a field that is
  present. The parameter annotation \<open>msg: ContactMessage\<close> makes the framework build
  the message from the body: all three fields of \<open>ContactMessage\<close> are declared without a
  default, so each is required, and a body that lacks one is refused with a
  \<open>RequestValidationError\<close> listing the absent fields.
\<close>

record contact_body =
  body_name :: "pystr option"
  body_email :: "pystr option"
  body_message :: "pystr option"

definition missing_fields :: "contact_body \<Rightarrow> pystr list" where
  "missing_fields b =
     (if body_name b = None then [ascii ''name''] else []) @
     (if body_email b = None then [ascii ''email''] else []) @
     (if body_message b = None then [ascii ''message''] else [])"

definition parse_ContactMessage :: "contact_body \<Rightarrow> error + ContactMessage" where
  "parse_ContactMessage b =
     (case (body_name b, body_email b, body_message b) of
        (Some n, Some e, Some m) \<Rightarrow> Inr \<lparr>name = n, email = e, message = m\<rparr>
      | _ \<Rightarrow> Inl (RequestValidationError (missing_fields b)))"

definition post_api_contact :: "contact_body \<Rightarrow> error + pydict" where
  "post_api_contact b =
     (case parse_ContactMessage b of
        Inl e \<Rightarrow> Inl e
      | Inr msg \<Rightarrow> submit_contact msg)"

section \<open>The diagnostic endpoint\<close>

text \<open>
  The environment of the process: \<open>os.getenv(k)\<close> is \<open>None\<close> for a variable that is
  not set and its value, which may be the empty string, for one that is.
\<close>

type_synonym environ = "pystr \<Rightarrow> pystr option"

definition getenv :: "environ \<Rightarrow> pystr \<Rightarrow> pystr option" where
  "getenv environ k = environ k"

text \<open>Truthiness of an optional string: \<open>None\<close> and the empty string are false.\<close>

definition truthy_opt :: "pystr option \<Rightarrow> bool" where
  "truthy_opt v = (case v of None \<Rightarrow> False | Some s \<Rightarrow> truthy s)"

text \<open>
  The database collaborator is the module \<open>database\<close>, which is not part of the sources
  and may not exist; it is a parameter of the handler. \<open>from database import db\<close> either
  raises or binds \<open>db\<close> to \<open>None\<close> or to a handle. Of a handle the handler uses the
  attribute \<open>name\<close>, if \<open>hasattr\<close> finds one, and the method
  \<open>list_collection_names\<close>, whose outcome is what the two lines
  \<^verbatim>\<open>
  collections = db.list_collection_names()
  response["collections"] = collections[:10]
  \<close>
  see: a list, or the exception raised by the call or by a result that cannot be sliced.
\<close>

record Database =
  db_name :: "json option"
  list_collection_names :: "exc + json list"

datatype database_module = ImportRaises exc | Imported "Database option"

text \<open>The emoji of the status strings, by code point.\<close>

definition check_mark :: pystr where
  "check_mark = [0x2705]"

definition cross_mark :: pystr where
  "cross_mark = [0x274C]"

definition warning_sign :: pystr where
  "warning_sign = [0x26A0, 0xFE0F]"

text \<open>
  \<^verbatim>\<open>
  response = {
      "backend": "... Running",
      "database": "... Not Available",
      "database_url": None,
      "database_name": None,
      "connection_status": "Not Connected",
      "collections": []
  }
  \<close>
\<close>

definition initial_response :: pydict where
  "initial_response =
     [(ascii ''backend'', JStr (check_mark @ ascii '' Running'')),
      (ascii ''database'', JStr (cross_mark @ ascii '' Not Available'')),
      (ascii ''database_url'', JNull),
      (ascii ''database_name'', JNull),
      (ascii ''connection_status'', JStr (ascii ''Not Connected'')),
      (ascii ''collections'', JList [])]"

text \<open>
  The inner \<open>try\<close>, entered with a handle. The dictionary is mutable, so what was
  assigned before an exception stays assigned; the result is the dictionary and the
  exception that leaves the statement, if any.
  \<^verbatim>\<open>
  try:
      collections = db.list_collection_names()
      response["collections"] = collections[:10]
      response["database"] = "... Connected & Working"
  except Exception as e:
      response["database"] = f"...  Connected but Error: {str(e)[:50]}"
  \<close>
\<close>

definition list_collections :: "pydict \<Rightarrow> Database \<Rightarrow> pydict \<times> exc option" where
  "list_collections response db =
     (case list_collection_names db of
        Inr collections \<Rightarrow>
          (let response = AList.update (ascii ''collections'') (JList (take 10 collections)) response;
               response = AList.update (ascii ''database'')
                            (JStr (check_mark @ ascii '' Connected & Working'')) response
           in (response, None))
      | Inl e \<Rightarrow>
          if isinstance_Exception e
          then (AList.update (ascii ''database'')
                  (JStr (warning_sign @ ascii ''  Connected but Error: '' @ take 50 (exc_str e)))
                  response, None)
          else (response, Some e))"

text \<open>
  The body of the outer \<open>try\<close>.
  \<^verbatim>\<open>
  from database import db
  if db is not None:
      response["database"] = "... Available"
      response["database_url"] = "... Configured"
      response["database_name"] = db.name if hasattr(db, 'name') else "... Connected"
      response["connection_status"] = "Connected"
      try: ...
  else:
      response["database"] = "...  Available but not initialized"
  \<close>
\<close>

definition probe_database :: "pydict \<Rightarrow> database_module \<Rightarrow> pydict \<times> exc option" where
  "probe_database response m =
     (case m of
        ImportRaises e \<Rightarrow> (response, Some e)
      | Imported None \<Rightarrow>
          (AList.update (ascii ''database'')
             (JStr (warning_sign @ ascii ''  Available but not initialized'')) response, None)
      | Imported (Some db) \<Rightarrow>
          (let response = AList.update (ascii ''database'')
                            (JStr (check_mark @ ascii '' Available'')) response;
               response = AList.update (ascii ''database_url'')
                            (JStr (check_mark @ ascii '' Configured'')) response;
               response = AList.update (ascii ''database_name'')
                            (case db_name db of
                               Some n \<Rightarrow> n
                             | None \<Rightarrow> JStr (check_mark @ ascii '' Connected'')) response;
               response = AList.update (ascii ''connection_status'')
                            (JStr (ascii ''Connected'')) response
           in list_collections response db))"

text \<open>
  The lines after the \<open>try\<close> statement.
  \<^verbatim>\<open>
  response["database_url"] = "... Set" if os.getenv("DATABASE_URL") else "... Not Set"
  response["database_name"] = "... Set" if os.getenv("DATABASE_NAME") else "... Not Set"
  return response
  \<close>
\<close>

definition set_or_not_set :: "pystr option \<Rightarrow> pystr" where
  "set_or_not_set v =
     (if truthy_opt v then check_mark @ ascii '' Set'' else cross_mark @ ascii '' Not Set'')"

definition report_environ :: "environ \<Rightarrow> pydict \<Rightarrow> pydict" where
  "report_environ environ response =
     (let response = AList.update (ascii ''database_url'')
                       (JStr (set_or_not_set (getenv environ (ascii ''DATABASE_URL'')))) response;
          response = AList.update (ascii ''database_name'')
                       (JStr (set_or_not_set (getenv environ (ascii ''DATABASE_NAME'')))) response
      in response)"

text \<open>
  The handler: the outer \<open>try\<close> with its two \<open>except\<close> clauses, tried in order, then
  the lines above. An exception that neither clause catches leaves the handler.
  \<^verbatim>\<open>
  except ImportError:
      response["database"] = "... Database module not found (run enable-database first)"
  except Exception as e:
      response["database"] = f"... Error: {str(e)[:50]}"
  \<close>
\<close>

definition test_database :: "environ \<Rightarrow> database_module \<Rightarrow> error + pydict" where
  "test_database environ m =
     (case probe_database initial_response m of
        (response, None) \<Rightarrow> Inr (report_environ environ response)
      | (response, Some e) \<Rightarrow>
          if isinstance_ImportError e
          then Inr (report_environ environ
                 (AList.update (ascii ''database'')
                    (JStr (cross_mark @
                           ascii '' Database module not found (run enable-database first)''))
                    response))
          else if isinstance_Exception e
          then Inr (report_environ environ
                 (AList.update (ascii ''database'')
                    (JStr (cross_mark @ ascii '' Error: '' @ take 50 (exc_str e))) response))
          else Inl (Uncaught e))"

section \<open>The routes\<close>

text \<open>
  The \<open>GET\<close> routes registered by the \<open>@app.get\<close> decorators, and what each answers
  with: the value its handler returns in the process's environment and with the
  collaborator as it is at the time of the call.
\<close>

datatype route = Root | ApiProfile | ApiSkills | ApiExperience | ApiProjects | Test

datatype payload =
    DictPayload pydict
  | ProfilePayload Profile
  | SkillsPayload "Skill list"
  | ExperiencePayload "Experience list"
  | ProjectsPayload "Project list"

definition get :: "environ \<Rightarrow> database_module \<Rightarrow> route \<Rightarrow> error + payload" where
  "get environ m r =
     (case r of
        Root \<Rightarrow> Inr (DictPayload read_root)
      | ApiProfile \<Rightarrow> map_sum id ProfilePayload get_profile
      | ApiSkills \<Rightarrow> Inr (SkillsPayload get_skills)
      | ApiExperience \<Rightarrow> Inr (ExperiencePayload get_experience)
      | ApiProjects \<Rightarrow> map_sum id ProjectsPayload get_projects
      | Test \<Rightarrow> map_sum id DictPayload (test_database environ m))"

section \<open>Notions of the specification\<close>

text \<open>
  The start of a period of experience is a free-form string; it is compared as the year
  it spells in decimal digits, and a start that is not a number compares with nothing.
\<close>

fun parse_decimal :: "nat \<Rightarrow> pystr \<Rightarrow> nat option" where
  "parse_decimal acc [] = Some acc"
| "parse_decimal acc (c # cs) =
     (if is_digit c then parse_decimal (10 * acc + (c - 48)) cs else None)"

definition year_of :: "pystr \<Rightarrow> nat option" where
  "year_of s = (if s = [] then None else parse_decimal 0 s)"

definition starts_no_earlier :: "Experience \<Rightarrow> Experience \<Rightarrow> bool" where
  "starts_no_earlier a b =
     (case (year_of (start a), year_of (start b)) of
        (Some x, Some y) \<Rightarrow> y \<le> x
      | _ \<Rightarrow> False)"

fun adjacent_pairs :: "'a list \<Rightarrow> ('a \<times> 'a) list" where
  "adjacent_pairs (x # y # ys) = (x, y) # adjacent_pairs (y # ys)"
| "adjacent_pairs xs = []"

definition url_field_ok :: "HttpUrl option \<Rightarrow> bool" where
  "url_field_ok v = (case v of None \<Rightarrow> True | Some u \<Rightarrow> http_url u)"


text \<open>
  Trimming, for the statement of the specification's version of the validation rule:
  \<open>str.strip()\<close> removes the leading and trailing code points for which
  \<open>str.isspace()\<close> holds. The handler itself never calls it.
\<close>

definition isspace :: "codepoint \<Rightarrow> bool" where
  "isspace c =
     ((9 \<le> c \<and> c \<le> 13) \<or> (28 \<le> c \<and> c \<le> 32) \<or> c = 133 \<or> c = 160 \<or> c = 5760 \<or>
      (8192 \<le> c \<and> c \<le> 8202) \<or> c = 8232 \<or> c = 8233 \<or> c = 8239 \<or> c = 8287 \<or>
      c = 12288)"

definition strip :: "pystr \<Rightarrow> pystr" where
  "strip s = rev (dropWhile isspace (rev (dropWhile isspace s)))"

section \<open>Properties of the contact endpoint\<close>

lemma submit_contact_raises_iff:
  "(\<exists>e. submit_contact msg = Inl e) \<longleftrightarrow> name msg = [] \<or> email msg = [] \<or> message msg = []"
  by (auto simp: submit_contact_def truthy_def)

lemma submit_contact_raises_only_400:
  "submit_contact msg = Inl e \<Longrightarrow> e = HTTPException 400 (ascii ''All fields are required'')"
  by (auto simp: submit_contact_def split: if_splits)

lemma submit_contact_accepts:
  assumes "name msg \<noteq> []" and "email msg \<noteq> []" and "message msg \<noteq> []"
  shows "submit_contact msg =
           Inr [(ascii ''status'', JStr (ascii ''received'')), (ascii ''name'', JStr (name msg))]"
  using assms by (simp add: submit_contact_def truthy_def)

text \<open>
  C1, as the handler has it. The request fails with the 400 error "All fields are
  required" if and only if at least one of name, email and message is the empty string.
  Nothing is trimmed: the test is the truthiness of the field as it was sent. No other
  error is ever raised by the handler, and the status of the response is 400 exactly in
  that case.
\<close>

theorem contact_rejected_iff_empty_field:
  "(submit_contact msg = Inl (HTTPException 400 (ascii ''All fields are required''))
      \<longleftrightarrow> name msg = [] \<or> email msg = [] \<or> message msg = [])
   \<and> ((\<exists>e. submit_contact msg = Inl e)
      \<longleftrightarrow> submit_contact msg = Inl (HTTPException 400 (ascii ''All fields are required'')))
   \<and> (status_of (submit_contact msg) = 400
      \<longleftrightarrow> name msg = [] \<or> email msg = [] \<or> message msg = [])"
proof -
  let ?err = "HTTPException 400 (ascii ''All fields are required'')"
  let ?empty = "name msg = [] \<or> email msg = [] \<or> message msg = []"
  have raises: "(\<exists>e. submit_contact msg = Inl e) \<longleftrightarrow> ?empty"
    by (rule submit_contact_raises_iff)
  have only: "(\<exists>e. submit_contact msg = Inl e) \<longleftrightarrow> submit_contact msg = Inl ?err"
    using submit_contact_raises_only_400 by blast
  have status: "status_of (submit_contact msg) = 400 \<longleftrightarrow> ?empty"
  proof (cases ?empty)
    case True
    then have "submit_contact msg = Inl ?err" using raises only by simp
    then show ?thesis using True by (simp add: status_of_def)
  next
    case False
    then have "submit_contact msg =
        Inr [(ascii ''status'', JStr (ascii ''received'')), (ascii ''name'', JStr (name msg))]"
      by (simp add: submit_contact_accepts)
    then show ?thesis using False by (simp add: status_of_def)
  qed
  from raises only status show ?thesis by simp
qed

theorem contact_rejected_empty_name:
  "submit_contact \<lparr>name = [], email = ascii ''a@example.com'', message = ascii ''hi''\<rparr>
     = Inl (HTTPException 400 (ascii ''All fields are required''))
   \<and> status_of (submit_contact
         \<lparr>name = [], email = ascii ''a@example.com'', message = ascii ''hi''\<rparr>) = 400"
  using contact_rejected_iff_empty_field
    [of "\<lparr>name = [], email = ascii ''a@example.com'', message = ascii ''hi''\<rparr>"]
  by (simp add: status_of_def)

text \<open>
  C1, as the specification states it, fails: a name that is a single space is empty
  after trimming, and the request is accepted with status 200 and the space echoed.
\<close>

theorem contact_whitespace_name_accepted:
  "strip (ascii '' '') = []
   \<and> submit_contact \<lparr>name = ascii '' '', email = ascii ''a@example.com'', message = ascii ''hi''\<rparr>
       = Inr [(ascii ''status'', JStr (ascii ''received'')), (ascii ''name'', JStr (ascii '' ''))]
   \<and> status_of (submit_contact
         \<lparr>name = ascii '' '', email = ascii ''a@example.com'', message = ascii ''hi''\<rparr>) = 200"
  by (simp add: strip_def isspace_def submit_contact_def truthy_def status_of_def ascii_def)

text \<open>
  C2. A message whose name, email and message are all non-empty is accepted: the handler
  returns exactly the dictionary with \<open>status\<close> "received" and \<open>name\<close> the name as it
  was sent, and the response has status 200; the same holds for the request whose body
  carries these three fields. The handler is a function of the message alone and returns
  nothing but this value: it reads and writes no state.
\<close>

theorem contact_accepted_echoes_name:
  assumes "name msg \<noteq> []" and "email msg \<noteq> []" and "message msg \<noteq> []"
  shows "submit_contact msg =
           Inr [(ascii ''status'', JStr (ascii ''received'')), (ascii ''name'', JStr (name msg))]
         \<and> status_of (submit_contact msg) = 200
         \<and> post_api_contact
              \<lparr>body_name = Some (name msg), body_email = Some (email msg),
               body_message = Some (message msg)\<rparr> = submit_contact msg"
proof -
  have ok: "submit_contact msg =
      Inr [(ascii ''status'', JStr (ascii ''received'')), (ascii ''name'', JStr (name msg))]"
    using assms by (rule submit_contact_accepts)
  have "parse_ContactMessage
      \<lparr>body_name = Some (name msg), body_email = Some (email msg),
       body_message = Some (message msg)\<rparr> = Inr msg"
    by (simp add: parse_ContactMessage_def)
  then have "post_api_contact
      \<lparr>body_name = Some (name msg), body_email = Some (email msg),
       body_message = Some (message msg)\<rparr> = submit_contact msg"
    by (simp add: post_api_contact_def)
  with ok show ?thesis by (simp add: status_of_def)
qed

theorem contact_accepted_alice:
  "submit_contact \<lparr>name = ascii ''Alice'', email = ascii ''a@example.com'', message = ascii ''hi''\<rparr>
     = Inr [(ascii ''status'', JStr (ascii ''received'')), (ascii ''name'', JStr (ascii ''Alice''))]
   \<and> status_of (submit_contact
         \<lparr>name = ascii ''Alice'', email = ascii ''a@example.com'', message = ascii ''hi''\<rparr>) = 200"
  using contact_accepted_echoes_name
    [of "\<lparr>name = ascii ''Alice'', email = ascii ''a@example.com'', message = ascii ''hi''\<rparr>"]
  by (simp add: ascii_def status_of_def)

text \<open>
  C3, as the framework answers it. A body without the \<open>message\<close> field never reaches
  the handler: building the \<open>ContactMessage\<close> fails with a request validation error that
  names the field, and the status of the response is 422.
\<close>

theorem contact_missing_message_422:
  assumes "body_message b = None"
  shows "status_of (post_api_contact b) = 422
         \<and> (\<exists>locs. post_api_contact b = Inl (RequestValidationError locs)
                \<and> ascii ''message'' \<in> set locs)"
proof -
  have "parse_ContactMessage b = Inl (RequestValidationError (missing_fields b))"
    using assms by (simp add: parse_ContactMessage_def split: option.splits)
  then have "post_api_contact b = Inl (RequestValidationError (missing_fields b))"
    by (simp add: post_api_contact_def)
  moreover have "ascii ''message'' \<in> set (missing_fields b)"
    using assms by (simp add: missing_fields_def)
  ultimately show ?thesis by (simp add: status_of_def)
qed

theorem contact_missing_message_422_witness:
  "body_message \<lparr>body_name = Some (ascii ''Alice''), body_email = Some (ascii ''a@example.com''),
                  body_message = None\<rparr> = None
   \<and> status_of (post_api_contact
         \<lparr>body_name = Some (ascii ''Alice''), body_email = Some (ascii ''a@example.com''),
          body_message = None\<rparr>) = 422"
  using contact_missing_message_422
    [of "\<lparr>body_name = Some (ascii ''Alice''), body_email = Some (ascii ''a@example.com''),
         body_message = None\<rparr>"]
  by (simp add: status_of_def)

text \<open>
  C3, as the specification states it, fails: the status of the response to a body with
  name and email but no message is 422, not 400.
\<close>

theorem contact_missing_message_not_400:
  "post_api_contact
     \<lparr>body_name = Some (ascii ''Alice''), body_email = Some (ascii ''a@example.com''),
      body_message = None\<rparr> = Inl (RequestValidationError [ascii ''message''])
   \<and> status_of (post_api_contact
         \<lparr>body_name = Some (ascii ''Alice''), body_email = Some (ascii ''a@example.com''),
          body_message = None\<rparr>) \<noteq> 400"
  by (simp add: post_api_contact_def parse_ContactMessage_def missing_fields_def status_of_def)

section \<open>Properties of the diagnostic endpoint\<close>

text \<open>The response in each state of the collaborator, key by key.\<close>

lemmas response_defs =
  test_database_def probe_database_def list_collections_def report_environ_def
  initial_response_def Let_def ascii_def

lemma test_database_module_not_found:
  assumes "isinstance_ImportError e"
  shows "test_database environ (ImportRaises e) =
    Inr [(ascii ''backend'', JStr (check_mark @ ascii '' Running'')),
         (ascii ''database'',
            JStr (cross_mark @ ascii '' Database module not found (run enable-database first)'')),
         (ascii ''database_url'', JStr (set_or_not_set (getenv environ (ascii ''DATABASE_URL'')))),
         (ascii ''database_name'', JStr (set_or_not_set (getenv environ (ascii ''DATABASE_NAME'')))),
         (ascii ''connection_status'', JStr (ascii ''Not Connected'')),
         (ascii ''collections'', JList [])]"
  using assms by (simp add: response_defs)

lemma test_database_import_fails:
  assumes "\<not> isinstance_ImportError e" and "isinstance_Exception e"
  shows "test_database environ (ImportRaises e) =
    Inr [(ascii ''backend'', JStr (check_mark @ ascii '' Running'')),
         (ascii ''database'', JStr (cross_mark @ ascii '' Error: '' @ take 50 (exc_str e))),
         (ascii ''database_url'', JStr (set_or_not_set (getenv environ (ascii ''DATABASE_URL'')))),
         (ascii ''database_name'', JStr (set_or_not_set (getenv environ (ascii ''DATABASE_NAME'')))),
         (ascii ''connection_status'', JStr (ascii ''Not Connected'')),
         (ascii ''collections'', JList [])]"
  using assms by (simp add: response_defs)

lemma test_database_not_initialized:
  "test_database environ (Imported None) =
    Inr [(ascii ''backend'', JStr (check_mark @ ascii '' Running'')),
         (ascii ''database'', JStr (warning_sign @ ascii ''  Available but not initialized'')),
         (ascii ''database_url'', JStr (set_or_not_set (getenv environ (ascii ''DATABASE_URL'')))),
         (ascii ''database_name'', JStr (set_or_not_set (getenv environ (ascii ''DATABASE_NAME'')))),
         (ascii ''connection_status'', JStr (ascii ''Not Connected'')),
         (ascii ''collections'', JList [])]"
  by (simp add: response_defs)

lemma test_database_working:
  assumes "list_collection_names db = Inr names"
  shows "test_database environ (Imported (Some db)) =
    Inr [(ascii ''backend'', JStr (check_mark @ ascii '' Running'')),
         (ascii ''database'', JStr (check_mark @ ascii '' Connected & Working'')),
         (ascii ''database_url'', JStr (set_or_not_set (getenv environ (ascii ''DATABASE_URL'')))),
         (ascii ''database_name'', JStr (set_or_not_set (getenv environ (ascii ''DATABASE_NAME'')))),
         (ascii ''connection_status'', JStr (ascii ''Connected'')),
         (ascii ''collections'', JList (take 10 names))]"
  using assms by (simp add: response_defs)

lemma test_database_listing_fails:
  assumes "list_collection_names db = Inl e" and "isinstance_Exception e"
  shows "test_database environ (Imported (Some db)) =
    Inr [(ascii ''backend'', JStr (check_mark @ ascii '' Running'')),
         (ascii ''database'',
            JStr (warning_sign @ ascii ''  Connected but Error: '' @ take 50 (exc_str e))),
         (ascii ''database_url'', JStr (set_or_not_set (getenv environ (ascii ''DATABASE_URL'')))),
         (ascii ''database_name'', JStr (set_or_not_set (getenv environ (ascii ''DATABASE_NAME'')))),
         (ascii ''connection_status'', JStr (ascii ''Connected'')),
         (ascii ''collections'', JList [])]"
  using assms by (simp add: response_defs)

text \<open>
  What is not an instance of \<open>Exception\<close> is caught by no clause and leaves the handler.
\<close>

lemma test_database_import_uncaught:
  assumes "\<not> isinstance_Exception e"
  shows "test_database environ (ImportRaises e) = Inl (Uncaught e)"
  using assms
  by (simp add: response_defs isinstance_Exception_def isinstance_ImportError_def)

lemma test_database_listing_uncaught:
  assumes "list_collection_names db = Inl e" and "\<not> isinstance_Exception e"
  shows "test_database environ (Imported (Some db)) = Inl (Uncaught e)"
  using assms
  by (simp add: response_defs isinstance_Exception_def isinstance_ImportError_def)

text \<open>
  Every response of the handler has the six keys of the initial dictionary, in their
  order; only the status strings and the collections vary.
\<close>

lemma set_or_not_set_getenv:
  "set_or_not_set (getenv environ k) =
     (if (\<exists>v. environ k = Some v \<and> v \<noteq> []) then check_mark @ ascii '' Set''
      else cross_mark @ ascii '' Not Set'')"
  by (cases "environ k") (simp_all add: set_or_not_set_def truthy_opt_def truthy_def getenv_def)

lemma test_database_shape:
  assumes "test_database environ m = Inr response"
  shows "\<exists>status connection.
    response =
      [(ascii ''backend'', JStr (check_mark @ ascii '' Running'')),
       (ascii ''database'', JStr status),
       (ascii ''database_url'', JStr (set_or_not_set (getenv environ (ascii ''DATABASE_URL'')))),
       (ascii ''database_name'', JStr (set_or_not_set (getenv environ (ascii ''DATABASE_NAME'')))),
       (ascii ''connection_status'', JStr connection),
       (ascii ''collections'',
          JList (case m of
                   Imported (Some db) \<Rightarrow>
                     (case list_collection_names db of
                        Inr names \<Rightarrow> take 10 names
                      | Inl e \<Rightarrow> [])
                 | _ \<Rightarrow> []))]"
proof (cases m)
  case (ImportRaises e)
  show ?thesis
  proof (cases "isinstance_Exception e")
    case False
    then show ?thesis
      using assms ImportRaises by (simp add: test_database_import_uncaught)
  next
    case True
    show ?thesis
    proof (cases "isinstance_ImportError e")
      case True
      then show ?thesis
        using assms ImportRaises test_database_module_not_found [of e environ] by auto
    next
      case False
      then show ?thesis
        using assms ImportRaises \<open>isinstance_Exception e\<close>
          test_database_import_fails [of e environ] by auto
    qed
  qed
next
  case (Imported h)
  show ?thesis
  proof (cases h)
    case None
    then show ?thesis
      using assms Imported test_database_not_initialized [of environ] by auto
  next
    case (Some db)
    show ?thesis
    proof (cases "list_collection_names db")
      case (Inr names)
      then show ?thesis
        using assms Imported Some test_database_working [of db names environ] by auto
    next
      case (Inl e)
      show ?thesis
      proof (cases "isinstance_Exception e")
        case True
        then show ?thesis
          using assms Imported Some Inl test_database_listing_fails [of db e environ] by auto
      next
        case False
        then show ?thesis
          using assms Imported Some Inl test_database_listing_uncaught [of db e environ] by auto
      qed
    qed
  qed
qed



text \<open>
  C5, as the handler has it. In every response, \<open>database_url\<close> is the check mark
  followed by " Set" exactly when \<open>DATABASE_URL\<close> is set to a non-empty value, and the
  cross mark followed by " Not Set" otherwise; likewise \<open>database_name\<close> for
  \<open>DATABASE_NAME\<close>. The state of the collaborator plays no part.
\<close>

theorem test_database_reports_environ:
  assumes "test_database environ m = Inr response"
  shows "map_of response (ascii ''database_url'') =
           Some (JStr (if (\<exists>v. environ (ascii ''DATABASE_URL'') = Some v \<and> v \<noteq> [])
                       then check_mark @ ascii '' Set'' else cross_mark @ ascii '' Not Set''))
         \<and> map_of response (ascii ''database_name'') =
           Some (JStr (if (\<exists>v. environ (ascii ''DATABASE_NAME'') = Some v \<and> v \<noteq> [])
                       then check_mark @ ascii '' Set'' else cross_mark @ ascii '' Not Set''))"
proof -
  from test_database_shape [OF assms] obtain status connection where
    "response =
      [(ascii ''backend'', JStr (check_mark @ ascii '' Running'')),
       (ascii ''database'', JStr status),
       (ascii ''database_url'', JStr (set_or_not_set (getenv environ (ascii ''DATABASE_URL'')))),
       (ascii ''database_name'', JStr (set_or_not_set (getenv environ (ascii ''DATABASE_NAME'')))),
       (ascii ''connection_status'', JStr connection),
       (ascii ''collections'',
          JList (case m of
                   Imported (Some db) \<Rightarrow>
                     (case list_collection_names db of
                        Inr names \<Rightarrow> take 10 names
                      | Inl e \<Rightarrow> [])
                 | _ \<Rightarrow> []))]"
    by blast
  then have url: "map_of response (ascii ''database_url'') =
        Some (JStr (set_or_not_set (getenv environ (ascii ''DATABASE_URL''))))"
    and name: "map_of response (ascii ''database_name'') =
        Some (JStr (set_or_not_set (getenv environ (ascii ''DATABASE_NAME''))))"
    by (simp_all add: ascii_def)
  show ?thesis
    unfolding url name set_or_not_set_getenv by simp
qed

theorem test_database_reports_environ_witness:
  "test_database (Map.empty(ascii ''DATABASE_URL'' \<mapsto> ascii ''mongodb://localhost:27017''))
     (Imported None)
   = Inr [(ascii ''backend'', JStr (check_mark @ ascii '' Running'')),
         (ascii ''database'', JStr (warning_sign @ ascii ''  Available but not initialized'')),
         (ascii ''database_url'', JStr (check_mark @ ascii '' Set'')),
         (ascii ''database_name'', JStr (cross_mark @ ascii '' Not Set'')),
         (ascii ''connection_status'', JStr (ascii ''Not Connected'')),
         (ascii ''collections'', JList [])]
   \<and> map_of [(ascii ''backend'', JStr (check_mark @ ascii '' Running'')),
         (ascii ''database'', JStr (warning_sign @ ascii ''  Available but not initialized'')),
         (ascii ''database_url'', JStr (check_mark @ ascii '' Set'')),
         (ascii ''database_name'', JStr (cross_mark @ ascii '' Not Set'')),
         (ascii ''connection_status'', JStr (ascii ''Not Connected'')),
         (ascii ''collections'', JList [])] (ascii ''database_url'')
      = Some (JStr (check_mark @ ascii '' Set''))"
proof -
  let ?env = "Map.empty(ascii ''DATABASE_URL'' \<mapsto> ascii ''mongodb://localhost:27017'')"
  let ?r = "[(ascii ''backend'', JStr (check_mark @ ascii '' Running'')),
         (ascii ''database'', JStr (warning_sign @ ascii ''  Available but not initialized'')),
         (ascii ''database_url'', JStr (check_mark @ ascii '' Set'')),
         (ascii ''database_name'', JStr (cross_mark @ ascii '' Not Set'')),
         (ascii ''connection_status'', JStr (ascii ''Not Connected'')),
         (ascii ''collections'', JList [])]"
  have run: "test_database ?env (Imported None) = Inr ?r"
    by (simp add: test_database_not_initialized set_or_not_set_def getenv_def truthy_opt_def
        truthy_def ascii_def)
  from test_database_reports_environ [OF run] run show ?thesis
    by (simp add: ascii_def)
qed

text \<open>
  C5, as the specification states it, fails: with \<open>DATABASE_URL\<close> set to the empty
  string, the variable is set and the response says " Not Set".
\<close>

theorem test_database_empty_url_not_set:
  "(Map.empty(ascii ''DATABASE_URL'' \<mapsto> [])) (ascii ''DATABASE_URL'') = Some []
   \<and> test_database (Map.empty(ascii ''DATABASE_URL'' \<mapsto> []))
       (ImportRaises \<lparr>exc_class = ImportErrorClass, exc_str = ascii ''No module named database''\<rparr>)
     = Inr [(ascii ''backend'', JStr (check_mark @ ascii '' Running'')),
         (ascii ''database'',
            JStr (cross_mark @ ascii '' Database module not found (run enable-database first)'')),
         (ascii ''database_url'', JStr (cross_mark @ ascii '' Not Set'')),
         (ascii ''database_name'', JStr (cross_mark @ ascii '' Not Set'')),
         (ascii ''connection_status'', JStr (ascii ''Not Connected'')),
         (ascii ''collections'', JList [])]"
  by (simp add: response_defs isinstance_ImportError_def set_or_not_set_def getenv_def
      truthy_opt_def truthy_def)

text \<open>
  C10. In every response the \<open>collections\<close> field is a list of at most 10 elements: the
  first 10 names of the listing when the listing succeeds, and the empty list in every
  other state of the collaborator.
\<close>

theorem test_database_collections_at_most_10:
  assumes "test_database environ m = Inr response"
  shows "\<exists>collections.
           map_of response (ascii ''collections'') = Some (JList collections)
           \<and> length collections \<le> 10
           \<and> collections =
               (case m of
                  Imported (Some db) \<Rightarrow>
                    (case list_collection_names db of
                       Inr names \<Rightarrow> take 10 names
                     | Inl e \<Rightarrow> [])
                | _ \<Rightarrow> [])"
proof -
  let ?listed = "case m of
                  Imported (Some db) \<Rightarrow>
                    (case list_collection_names db of
                       Inr names \<Rightarrow> take 10 names
                     | Inl e \<Rightarrow> [])
                | _ \<Rightarrow> []"
  from test_database_shape [OF assms] obtain status connection where
    "response =
      [(ascii ''backend'', JStr (check_mark @ ascii '' Running'')),
       (ascii ''database'', JStr status),
       (ascii ''database_url'', JStr (set_or_not_set (getenv environ (ascii ''DATABASE_URL'')))),
       (ascii ''database_name'', JStr (set_or_not_set (getenv environ (ascii ''DATABASE_NAME'')))),
       (ascii ''connection_status'', JStr connection),
       (ascii ''collections'', JList ?listed)]"
    by blast
  then have lookup: "map_of response (ascii ''collections'') = Some (JList ?listed)"
    by (simp add: ascii_def)
  have "length ?listed \<le> 10"
    by (simp split: database_module.split option.split sum.split)
  with lookup show ?thesis by blast
qed

theorem test_database_collections_at_most_10_witness:
  "\<exists>response.
     test_database Map.empty
       (Imported (Some \<lparr>db_name = Some (JStr (ascii ''portfolio'')),
          list_collection_names = Inr (replicate 12 (JStr (ascii ''c'')))\<rparr>)) = Inr response
     \<and> map_of response (ascii ''collections'') = Some (JList (replicate 10 (JStr (ascii ''c''))))"
proof -
  let ?db = "\<lparr>db_name = Some (JStr (ascii ''portfolio'')),
          list_collection_names = Inr (replicate 12 (JStr (ascii ''c'')))\<rparr>"
  have "\<exists>response. test_database Map.empty (Imported (Some ?db)) = Inr response"
    using test_database_working [of ?db "replicate 12 (JStr (ascii ''c''))" Map.empty] by simp
  then obtain response where run: "test_database Map.empty (Imported (Some ?db)) = Inr response"
    by blast
  from test_database_collections_at_most_10 [OF run] run show ?thesis
    by auto
qed

section \<open>Properties of the read-only resources\<close>

text \<open>The URLs of the fixed data are accepted by the URL type.\<close>

lemma avatar_is_url: "http_url (ascii ''https://avatars.githubusercontent.com/u/9919?s=200&v=4'')"
  by code_simp
lemma repo_is_url: "http_url (ascii ''https://github.com/'')"
  by code_simp
lemma live_is_url: "http_url (ascii ''https://example.com'')"
  by code_simp
lemma image_DevDash_is_url:
  "http_url (ascii ''https://images.unsplash.com/photo-1555066931-4365d14bab8c?q=80&w=1200&auto=format&fit=crop'')"
  by code_simp
lemma image_TaskFlow_is_url:
  "http_url (ascii ''https://images.unsplash.com/photo-1515879218367-8466d910aaa4?q=80&w=1200&auto=format&fit=crop'')"
  by code_simp
lemma image_API_Kit_is_url:
  "http_url (ascii ''https://images.unsplash.com/photo-1518770660439-4636190af475?q=80&w=1200&auto=format&fit=crop'')"
  by code_simp

text \<open>So both handlers that build models with URL fields return their models.\<close>

lemma get_profile_value:
  "get_profile =
     Inr \<lparr>Profile.name = ascii ''Your Name'',
          title = ascii ''Software Engineer'',
          Profile.location = ascii ''Remote / Worldwide'',
          bio = ascii ''I craft scalable web apps and delightful developer experiences. '' @
                ascii ''I specialize in React, TypeScript, Node.js, and cloud-native backends.'',
          avatar = Some (ascii ''https://avatars.githubusercontent.com/u/9919?s=200&v=4''),
          socials =
            [(ascii ''github'', JStr (ascii ''https://github.com/'')),
             (ascii ''linkedin'', JStr (ascii ''https://linkedin.com/in/'')),
             (ascii ''twitter'', JStr (ascii ''https://twitter.com/'')),
             (ascii ''email'', JStr (ascii ''mailto:you@example.com''))]\<rparr>"
  by (simp add: get_profile_def new_Profile_def refused_urls_def avatar_is_url)

lemma get_projects_value:
  "get_projects =
     Inr [\<lparr>Project.name = ascii ''DevDash'',
           description = ascii ''Developer productivity dashboard with integrations.'',
           tech = [ascii ''React'', ascii ''Vite'', ascii ''Tailwind'', ascii ''FastAPI''],
           repo = Some (ascii ''https://github.com/''),
           live = Some (ascii ''https://example.com''),
           image' = Some (ascii ''https://images.unsplash.com/photo-1555066931-4365d14bab8c?q=80&w=1200&auto=format&fit=crop'')\<rparr>,
          \<lparr>Project.name = ascii ''TaskFlow'',
           description = ascii ''Team task management with real-time updates.'',
           tech = [ascii ''TypeScript'', ascii ''React'', ascii ''MongoDB'', ascii ''Socket.io''],
           repo = Some (ascii ''https://github.com/''),
           live = Some (ascii ''https://example.com''),
           image' = Some (ascii ''https://images.unsplash.com/photo-1515879218367-8466d910aaa4?q=80&w=1200&auto=format&fit=crop'')\<rparr>,
          \<lparr>Project.name = ascii ''API Kit'',
           description = ascii ''Toolkit for building typed APIs quickly.'',
           tech = [ascii ''Python'', ascii ''FastAPI'', ascii ''Pydantic''],
           repo = Some (ascii ''https://github.com/''),
           live = Some (ascii ''https://example.com''),
           image' = Some (ascii ''https://images.unsplash.com/photo-1518770660439-4636190af475?q=80&w=1200&auto=format&fit=crop'')\<rparr>]"
  by (simp add: get_projects_def new_Project_def refused_urls_def repo_is_url live_is_url
      image_DevDash_is_url image_TaskFlow_is_url image_API_Kit_is_url)

text \<open>
  C6. \<open>GET /api/experience\<close> succeeds whatever the environment and the collaborator
  are, with status 200 and always the same list. The list is ordered most recent first:
  its starts are 2022 and then 2020, and in every pair of neighbours the first starts no
  earlier than the second.
\<close>

theorem experience_most_recent_first:
  "get environ m ApiExperience = Inr (ExperiencePayload get_experience)
   \<and> status_of (get environ m ApiExperience) = 200
   \<and> map start get_experience = [ascii ''2022'', ascii ''2020'']
   \<and> list_all (\<lambda>(earlier, later). starts_no_earlier earlier later)
        (adjacent_pairs get_experience)"
proof -
  have route: "get environ m ApiExperience = Inr (ExperiencePayload get_experience)"
    by (simp add: get_def)
  have starts: "map start get_experience = [ascii ''2022'', ascii ''2020'']"
    by (simp add: get_experience_def)
  have y22: "year_of (ascii ''2022'') = Some 2022" and y20: "year_of (ascii ''2020'') = Some 2020"
    by (simp_all add: year_of_def ascii_def is_digit_def)
  have "list_all (\<lambda>(earlier, later). starts_no_earlier earlier later)
        (adjacent_pairs get_experience)"
    by (simp add: get_experience_def starts_no_earlier_def y22 y20)
  with route starts show ?thesis by (simp add: status_of_def)
qed



text \<open>The diagnostic route is not among them: its answer changes with the environment.\<close>

lemma diagnostic_route_reads_environ:
  "get Map.empty (Imported None) Test \<noteq> get (Map.empty(ascii ''DATABASE_URL'' \<mapsto> ascii ''x'')) (Imported None) Test"
  by (simp add: get_def response_defs set_or_not_set_def getenv_def truthy_opt_def truthy_def check_mark_def cross_mark_def)

text \<open>
  C8. The profile is built, its avatar is present and is a valid URL; the projects are
  built, and each of \<open>repo\<close>, \<open>live\<close> and \<open>image\<close> of every project is, when present, a
  valid URL.
\<close>

theorem fixed_urls_valid:
  "(\<exists>profile. get_profile = Inr profile
       \<and> avatar profile = Some (ascii ''https://avatars.githubusercontent.com/u/9919?s=200&v=4'')
       \<and> url_field_ok (avatar profile))
   \<and> (\<exists>projects. get_projects = Inr projects
       \<and> list_all (\<lambda>p. url_field_ok (repo p) \<and> url_field_ok (live p) \<and> url_field_ok (image' p))
            projects)"
  by (simp add: get_profile_value get_projects_value url_field_ok_def avatar_is_url repo_is_url live_is_url
      image_DevDash_is_url image_TaskFlow_is_url image_API_Kit_is_url)

text \<open>
  C9. \<open>GET /api/projects\<close> returns three projects, and the \<open>tech\<close> list of every one
  of them is non-empty.
\<close>

theorem projects_tech_nonempty:
  "\<exists>projects. get_projects = Inr projects
     \<and> length projects = 3
     \<and> list_all (\<lambda>p. tech p \<noteq> []) projects"
  by (simp add: get_projects_value ascii_def)

end
